theory Spec2Isabelle
  imports Main "HOL-Library.AList" "HOL-Library.Char_ord" "HOL-Library.List_Lexorder"
begin

text \<open>
  A Cloudflare worker authenticates provisioned clients by challenge and
  response over RSA signatures, hands an authenticated client the secrets of
  its environment with two tokens, and keeps a registry of tunnel URLs. Its
  state lives in two Durable Objects, ChallengeStorage and TunnelStorage. The
  theory embeds the two objects, the utilities and the worker's \<open>fetch\<close>, and
  proves what they do to challenges, tunnel records and secrets.
\<close>

section \<open>The platform the worker runs on\<close>

text \<open>
  The worker is TypeScript on a JavaScript runtime. What the runtime computes
  (URL parsing, base64, JSON text, the whitespace class of a regular
  expression, Web Crypto) is not code of the repository; it is a parameter of
  every function below. A platform call that can throw
  returns a sum, \<open>Inl\<close> carrying the exception. A property of a request body
  has its declared TypeScript type: one declared \<open>string\<close> is a string or
  missing, and strings are only compared, tested for emptiness and cut at a
  prefix.
\<close>

datatype js_error = JsError string

datatype CryptoKey = CryptoKey string

datatype json = JNull | JBool bool | JNum int | JStr string
  | JArr "json list" | JObj "(string \<times> json) list"

text \<open>
  Values of the worker's environment object: a string variable or secret, or
  a binding (a Durable Object namespace, a service), which is not a string.
\<close>

datatype env_value = EnvString string | EnvBinding

type_synonym env = "(string \<times> env_value) list"

text \<open>
  What a property read \<open>v[name]\<close> yields: \<open>undefined\<close>, a string, or a value
  of another kind (a number, an object, a function inherited from the
  prototype), of which the code uses the truthiness only.
\<close>

datatype js_value = Undefined | Text string | Other bool

text \<open>
  What \<open>JSON.parse\<close> returns: \<open>null\<close>, on which a property read throws, or a
  value given by its property reads, own and inherited.
\<close>

datatype parsed = ParsedNull | Parsed "string \<Rightarrow> js_value"

record platform =
  pathname :: "string \<Rightarrow> string"
    \<comment> \<open>\<open>new URL('http://internal' + rest).pathname\<close>, as a function of \<open>rest\<close>\<close>
  atob :: "string \<Rightarrow> js_error + string"
  btoa :: "string \<Rightarrow> js_error + string"
  text_encode :: "string \<Rightarrow> string"
    \<comment> \<open>\<open>new TextEncoder().encode\<close>\<close>
  JSON_stringify :: "json \<Rightarrow> string"
  JSON_parse :: "env_value option \<Rightarrow> js_error + parsed"
    \<comment> \<open>\<open>JSON.parse(env.AUTHORIZED_CLIENTS)\<close>; \<open>None\<close> is a variable that is not set\<close>
  empty_object :: "string \<Rightarrow> js_value"
    \<comment> \<open>the property reads of the object literal \<open>{}\<close>\<close>
  replace_spaces :: "string \<Rightarrow> string"
    \<comment> \<open>\<open>s.replace(/\s/g, '')\<close>\<close>
  importKey_spki :: "string \<Rightarrow> js_error + CryptoKey"
  importKey_hmac :: "string \<Rightarrow> js_error + CryptoKey"
  subtle_verify :: "CryptoKey \<Rightarrow> string \<Rightarrow> string \<Rightarrow> js_error + bool"
  subtle_sign :: "CryptoKey \<Rightarrow> string \<Rightarrow> js_error + string"

text \<open>
  A line written to the console: the arguments of \<open>console.log\<close> or
  \<open>console.error\<close>, each a text, a number or an exception.
\<close>

datatype part = T string | N nat | E js_error

datatype log_line = ConsoleLog "part list" | ConsoleError "part list"

text \<open>JavaScript truthiness of an optional string: \<open>undefined\<close> and \<open>''\<close> are falsy.\<close>

fun falsy :: "string option \<Rightarrow> bool" where
  "falsy None = True"
| "falsy (Some s) = (s = [])"

text \<open>The same of a value read from a property.\<close>

fun falsy_value :: "js_value \<Rightarrow> bool" where
  "falsy_value Undefined = True"
| "falsy_value (Text s) = (s = [])"
| "falsy_value (Other truthy) = (\<not> truthy)"

text \<open>\<open>s.startsWith(p)\<close> and \<open>s.substring(n)\<close>.\<close>

definition startsWith :: "string \<Rightarrow> string \<Rightarrow> bool" where
  "startsWith s p = (take (length p) s = p)"

definition substring :: "string \<Rightarrow> nat \<Rightarrow> string" where
  "substring s n = drop n s"

text \<open>\<open>response.ok\<close>: a status in the range 200 to 299.\<close>

definition ok :: "nat \<Rightarrow> bool" where
  "ok st = (200 \<le> st \<and> st \<le> 299)"

section \<open>Requests to a Durable Object\<close>

text \<open>
  A stub call \<open>stub.fetch(url, {method, body})\<close>. \<open>url_rest\<close> is the text of the
  URL after \<open>http://internal\<close>; the body is the object the caller passes to
  \<open>JSON.stringify\<close>. \<open>None\<close> is a request without a body, on which
  \<open>request.json()\<close> throws.
\<close>

record 'b do_request =
  do_method :: string
  url_rest :: string
  do_body :: "'b option"

text \<open>
  The body of a store request to ChallengeStorage, as the route declares it:
  \<open>{clientId: string; challenge: string; expiresAt: number}\<close>.
\<close>

record challenge_store_body =
  s_clientId :: string
  s_challenge :: string
  s_expiresAt :: int

text \<open>
  The body of a store request to TunnelStorage. The route declares
  \<open>clientId\<close> and \<open>tunnelUrl\<close> and checks that neither is missing or empty; the
  worker sends \<open>token\<close> with them.
\<close>

record tunnel_store_body =
  b_clientId :: "string option"
  b_tunnelUrl :: "string option"
  b_token :: "string option"

section \<open>TunnelStorage (tunnel-storage.ts)\<close>

text \<open>The interface \<open>TunnelInfo\<close>.\<close>

record TunnelInfo =
  clientId :: string
  tunnelUrl :: string
  updatedAt :: int
  createdAt :: int

text \<open>
  An object found in storage. The storage is persistent and untyped, and
  \<open>storage.get<TunnelInfo>\<close> is a cast: the object has the properties of the
  interface and may have \<open>others\<close>, as the records shown in the repository's
  token document have a \<open>token\<close>. The object literal the store route writes
  has no other property.
\<close>

record TunnelObject = TunnelInfo +
  others :: "(string \<times> json) list"

text \<open>
  The object's storage: one value per key. \<open>storage.get\<close> is \<open>map_of\<close>,
  \<open>storage.put\<close> is \<open>AList.update\<close>, \<open>storage.delete\<close> is \<open>AList.delete\<close>, and
  \<open>storage.list({prefix})\<close> gives the values under the prefix in key order.
  Storage operations are taken to succeed.
\<close>

type_synonym tunnel_storage = "(string \<times> TunnelObject) list"

definition storage_list :: "string \<Rightarrow> tunnel_storage \<Rightarrow> TunnelObject list" where
  "storage_list p st = map snd (sort_key fst (filter (\<lambda>kv. startsWith (fst kv) p) st))"

datatype tunnel_body =
    TunnelData TunnelObject            \<comment> \<open>\<open>{success: true, data: tunnelInfo}\<close>\<close>
  | TunnelError string                 \<comment> \<open>\<open>{success: false, error}\<close>\<close>
  | TunnelList "TunnelObject list" nat \<comment> \<open>\<open>{success: true, data: tunnels, count}\<close>\<close>
  | TunnelMessage string               \<comment> \<open>\<open>{success: true, message}\<close>\<close>
  | TunnelText string                  \<comment> \<open>the plain text \<open>Not found\<close>\<close>

record tunnel_response =
  t_status :: nat
  t_body :: tunnel_body

text \<open>
  \<open>TunnelStorage.fetch\<close>. \<open>now\<close> is the reading of \<open>Date.now()\<close> in the store
  route. The stored object is the literal of the source: \<open>clientId\<close>,
  \<open>tunnelUrl\<close>, \<open>updatedAt\<close>, \<open>createdAt\<close> and nothing else; the request's
  \<open>token\<close> is not read.
  \<open>existing?.createdAt || now\<close> takes \<open>now\<close> when there is no record or its
  \<open>createdAt\<close> is 0.
\<close>

definition TunnelStorage_fetch ::
  "platform \<Rightarrow> int \<Rightarrow> tunnel_store_body do_request \<Rightarrow> tunnel_storage
     \<Rightarrow> tunnel_response \<times> tunnel_storage" where
  "TunnelStorage_fetch P now rq st =
    (let path = pathname P (url_rest rq) in
     if path = ''/store'' \<and> do_method rq = ''POST'' then
       (case do_body rq of
          None \<Rightarrow> (\<lparr>t_status = 500, t_body = TunnelError ''Internal error''\<rparr>, st)
        | Some b \<Rightarrow>
            if falsy (b_clientId b) \<or> falsy (b_tunnelUrl b) then
              (\<lparr>t_status = 400, t_body = TunnelError ''Missing clientId or tunnelUrl''\<rparr>, st)
            else
              let cid = the (b_clientId b);
                  url = the (b_tunnelUrl b);
                  key = ''tunnel:'' @ cid;
                  existing = map_of st key;
                  tunnelInfo = \<lparr>clientId = cid, tunnelUrl = url, updatedAt = now,
                    createdAt = (case existing of
                        None \<Rightarrow> now
                      | Some e \<Rightarrow> if createdAt e = 0 then now else createdAt e),
                    others = []\<rparr>
              in (\<lparr>t_status = 200, t_body = TunnelData tunnelInfo\<rparr>,
                  AList.update key tunnelInfo st))
     else if startsWith path ''/get/'' \<and> do_method rq = ''GET'' then
       (let cid = substring path 5 in
        if cid = [] then (\<lparr>t_status = 400, t_body = TunnelError ''Missing clientId''\<rparr>, st)
        else
          (case map_of st (''tunnel:'' @ cid) of
             None \<Rightarrow> (\<lparr>t_status = 404, t_body = TunnelError ''Tunnel not found''\<rparr>, st)
           | Some tunnelInfo \<Rightarrow> (\<lparr>t_status = 200, t_body = TunnelData tunnelInfo\<rparr>, st)))
     else if path = ''/list'' \<and> do_method rq = ''GET'' then
       (let tunnels = storage_list ''tunnel:'' st
        in (\<lparr>t_status = 200, t_body = TunnelList tunnels (length tunnels)\<rparr>, st))
     else if startsWith path ''/delete/'' \<and> do_method rq = ''DELETE'' then
       (let cid = substring path 8 in
        if cid = [] then (\<lparr>t_status = 400, t_body = TunnelError ''Missing clientId''\<rparr>, st)
        else (\<lparr>t_status = 200, t_body = TunnelMessage (''Tunnel for '' @ cid @ '' deleted'')\<rparr>,
              AList.delete (''tunnel:'' @ cid) st))
     else (\<lparr>t_status = 404, t_body = TunnelText ''Not found''\<rparr>, st))"

text \<open>
  The JSON text of a reply carries the own properties of the stored object.
  The worker reads \<open>data.token\<close> from the parsed reply; a property that is not
  there reads as \<open>undefined\<close>, here \<open>None\<close>.
\<close>

definition TunnelInfo_props :: "TunnelObject \<Rightarrow> (string \<times> json) list" where
  "TunnelInfo_props r =
     [(''clientId'', JStr (clientId r)), (''tunnelUrl'', JStr (tunnelUrl r)),
      (''updatedAt'', JNum (updatedAt r)), (''createdAt'', JNum (createdAt r))]
     @ others r"

section \<open>ChallengeStorage (challenge.ts)\<close>

record challenge_data =
  challenge :: string
  expiresAt :: int

type_synonym challenge_storage = "string \<rightharpoonup> challenge_data"

datatype challenge_body =
    ChallengeSuccess             \<comment> \<open>\<open>{success: true}\<close>\<close>
  | ChallengeData challenge_data \<comment> \<open>the stored object\<close>
  | ChallengeError string        \<comment> \<open>\<open>{error}\<close>\<close>

record challenge_response =
  c_status :: nat
  c_body :: challenge_body

text \<open>
  \<open>ChallengeStorage.fetch\<close>. The store route destructures \<open>clientId\<close>,
  \<open>challenge\<close> and \<open>expiresAt\<close> from the body without a check and overwrites
  the entry of \<open>clientId\<close>.
\<close>

definition ChallengeStorage_fetch ::
  "platform \<Rightarrow> challenge_store_body do_request \<Rightarrow> challenge_storage
     \<Rightarrow> challenge_response \<times> challenge_storage" where
  "ChallengeStorage_fetch P rq st =
    (let path = pathname P (url_rest rq) in
     if path = ''/store'' \<and> do_method rq = ''POST'' then
       (case do_body rq of
          None \<Rightarrow> (\<lparr>c_status = 500, c_body = ChallengeError ''Internal error''\<rparr>, st)
        | Some b \<Rightarrow>
            (\<lparr>c_status = 200, c_body = ChallengeSuccess\<rparr>,
             st(s_clientId b \<mapsto> \<lparr>challenge = s_challenge b, expiresAt = s_expiresAt b\<rparr>)))
     else if startsWith path ''/get/'' \<and> do_method rq = ''GET'' then
       (case st (substring path 5) of
          None \<Rightarrow> (\<lparr>c_status = 404, c_body = ChallengeError ''Challenge not found''\<rparr>, st)
        | Some d \<Rightarrow> (\<lparr>c_status = 200, c_body = ChallengeData d\<rparr>, st))
     else if startsWith path ''/delete/'' \<and> do_method rq = ''DELETE'' then
       (\<lparr>c_status = 200, c_body = ChallengeSuccess\<rparr>, st((substring path 8) := None))
     else (\<lparr>c_status = 404, c_body = ChallengeError ''Not found''\<rparr>, st))"

section \<open>Utilities (utils.ts) and signature verification (auth.ts)\<close>

text \<open>\<open>Object.keys(env)\<close>: every property name once.\<close>

definition Object_keys :: "env \<Rightarrow> string list" where
  "Object_keys e = remdups (map fst e)"

text \<open>\<open>generateChallenge\<close> and \<open>generateToken\<close>, from the 32 bytes drawn.\<close>

definition generateChallenge :: "platform \<Rightarrow> string \<Rightarrow> js_error + string" where
  "generateChallenge P bytes = btoa P bytes"

definition generateToken :: "platform \<Rightarrow> string \<Rightarrow> js_error + string" where
  "generateToken P bytes = btoa P bytes"

text \<open>
  \<open>getAuthorizedClients\<close>: what \<open>JSON.parse\<close> returns, or the object \<open>{}\<close>
  and a logged error when it throws. The declared result type
  \<open>Record<string, string>\<close> is not checked at run time: the result is
  whatever the text parses to.
\<close>

definition getAuthorizedClients :: "platform \<Rightarrow> env_value option \<Rightarrow> parsed \<times> log_line list" where
  "getAuthorizedClients P envVar =
     (case JSON_parse P envVar of
        Inl err \<Rightarrow>
          (Parsed (empty_object P),
           [ConsoleError [T ''Failed to parse AUTHORIZED_CLIENTS:'', E err]])
      | Inr v \<Rightarrow> (v, []))"

text \<open>
  \<open>authorizedClients[clientId]\<close>: a read of \<open>null\<close> throws; any other value
  yields its property of that name, own or inherited.
\<close>

fun read_property :: "parsed \<Rightarrow> string \<Rightarrow> js_error + js_value" where
  "read_property ParsedNull name = Inl (JsError ''TypeError'')"
| "read_property (Parsed get) name = Inr (get name)"

definition excludeKeys :: "string list" where
  "excludeKeys = [''AUTHORIZED_CLIENTS'', ''CHALLENGE_STORAGE'']"

text \<open>One round of the \<open>forEach\<close> of \<open>extractSecrets\<close>, and the function.\<close>

definition extract_step :: "env \<Rightarrow> string \<Rightarrow> (string \<times> string) list \<Rightarrow> (string \<times> string) list" where
  "extract_step e key secrets =
     (case map_of e key of
        Some (EnvString v) \<Rightarrow>
          if key \<notin> set excludeKeys then AList.update key v secrets else secrets
      | _ \<Rightarrow> secrets)"

definition extractSecrets :: "env \<Rightarrow> (string \<times> string) list" where
  "extractSecrets e = fold (extract_step e) (Object_keys e) []"

text \<open>\<open>s.replace(pat, '')\<close> with a string pattern: the first occurrence goes.\<close>

fun remove_first :: "string \<Rightarrow> string \<Rightarrow> string" where
  "remove_first pat [] = []"
| "remove_first pat (c # cs) =
     (if startsWith (c # cs) pat then drop (length pat) (c # cs)
      else c # remove_first pat cs)"

text \<open>
  \<open>importPublicKey\<close>. The handler passes it the value read from the table; a
  value that is not a string has no method \<open>replace\<close>, and the first call
  throws.
\<close>

fun importPublicKey :: "platform \<Rightarrow> js_value \<Rightarrow> js_error + CryptoKey" where
  "importPublicKey P (Text pemKey) =
    (let pemHeader = ''-----BEGIN PUBLIC KEY-----'';
         pemFooter = ''-----END PUBLIC KEY-----'';
         pemContents = replace_spaces P
           (remove_first pemFooter (remove_first pemHeader pemKey))
     in case atob P pemContents of
          Inl e \<Rightarrow> Inl e
        | Inr binaryDer \<Rightarrow> importKey_spki P binaryDer)"
| "importPublicKey P Undefined = Inl (JsError ''TypeError'')"
| "importPublicKey P (Other truthy) = Inl (JsError ''TypeError'')"

text \<open>
  \<open>verifySignature\<close>: the body of the \<open>try\<close>, where \<open>atob\<close> and
  \<open>crypto.subtle.verify\<close> may throw, and the function with its \<open>catch\<close>.
\<close>

definition verifySignature_try :: "platform \<Rightarrow> CryptoKey \<Rightarrow> string \<Rightarrow> string \<Rightarrow> js_error + bool" where
  "verifySignature_try P publicKey chal signature =
    (case atob P signature of
       Inl e \<Rightarrow> Inl e
     | Inr signatureBytes \<Rightarrow>
         subtle_verify P publicKey signatureBytes (text_encode P chal))"

definition verifySignature :: "platform \<Rightarrow> CryptoKey \<Rightarrow> string \<Rightarrow> string \<Rightarrow> js_error + bool" where
  "verifySignature P publicKey chal signature =
    (case verifySignature_try P publicKey chal signature of
       Inl e \<Rightarrow> Inr False
     | Inr isValid \<Rightarrow> Inr isValid)"

text \<open>
  \<open>generateJWT\<close>. The three \<open>replace\<close> calls of the base64url step are the
  three passes of \<open>url_safe\<close>; \<open>iat_now\<close> and \<open>exp_now\<close> are the two readings of
  \<open>Date.now()\<close>.
\<close>

definition url_safe :: "string \<Rightarrow> string" where
  "url_safe s = filter (\<lambda>c. c \<noteq> CHR ''='')
     (map (\<lambda>c. if c = CHR ''/'' then CHR ''_'' else c)
        (map (\<lambda>c. if c = CHR ''+'' then CHR ''-'' else c) s))"

definition base64UrlEncode :: "platform \<Rightarrow> json \<Rightarrow> js_error + string" where
  "base64UrlEncode P obj =
     (case btoa P (JSON_stringify P obj) of Inl e \<Rightarrow> Inl e | Inr t \<Rightarrow> Inr (url_safe t))"

definition generateJWT :: "platform \<Rightarrow> string \<Rightarrow> string \<Rightarrow> int \<Rightarrow> int \<Rightarrow> js_error + string" where
  "generateJWT P cid secretKey iat_now exp_now =
    (let header = JObj [(''alg'', JStr ''HS256''), (''typ'', JStr ''JWT'')];
         payload = JObj [(''clientId'', JStr cid), (''iat'', JNum (iat_now div 1000)),
                         (''exp'', JNum (exp_now div 1000 + 3600))]
     in case base64UrlEncode P header of
          Inl e \<Rightarrow> Inl e
        | Inr encodedHeader \<Rightarrow>
     (case base64UrlEncode P payload of
          Inl e \<Rightarrow> Inl e
        | Inr encodedPayload \<Rightarrow>
     (let data = encodedHeader @ ''.'' @ encodedPayload
      in case importKey_hmac P (text_encode P secretKey) of
          Inl e \<Rightarrow> Inl e
        | Inr key \<Rightarrow>
     (case subtle_sign P key (text_encode P data) of
          Inl e \<Rightarrow> Inl e
        | Inr signature \<Rightarrow>
     (case btoa P signature of
          Inl e \<Rightarrow> Inl e
        | Inr t \<Rightarrow> Inr (data @ ''.'' @ url_safe t))))))"

section \<open>The worker (index.ts)\<close>

text \<open>
  The parsed JSON body of a request, with the optional properties the handlers
  destructure, and the request: method, \<open>url.pathname\<close>, host name, the
  \<open>X-Service-Binding\<close> header and the body (\<open>None\<close> when \<open>request.json()\<close>
  throws).
\<close>

record body =
  q_clientId :: "string option"
  q_challenge :: "string option"
  q_signature :: "string option"
  q_repoUrl :: "string option"
  q_grpcEndpoint :: "string option"
  q_includeRepoList :: "bool option"
  q_tunnelUrl :: "string option"
  q_token :: "string option"

record request =
  req_method :: string
  path :: string
  hostname :: string
  x_service_binding :: "string option"
  json_body :: "body option"

datatype response_body =
    NoBody                          \<comment> \<open>the CORS preflight reply\<close>
  | Health                          \<comment> \<open>\<open>{status: 'ok'}\<close>\<close>
  | Failure string                  \<comment> \<open>\<open>{success: false, error}\<close>\<close>
  | ChallengeIssued string int      \<comment> \<open>\<open>{challenge, expiresAt}\<close>\<close>
  | Verified string string "(string \<times> string) list" "string list option"
      \<comment> \<open>\<open>{success: true, token, accessToken, secretData, repoList?}\<close>\<close>
  | Relayed tunnel_body             \<comment> \<open>the parsed reply of TunnelStorage, passed on\<close>

record response =
  status :: nat
  body :: response_body

record repos_reply =
  rr_success :: bool
  rr_data :: "string list option"

text \<open>
  What one request reads from outside: the clock, the random bytes and the
  replies of the webhook worker (a thrown call, or a status with the text or
  parsed body).
\<close>

record ambient =
  worker_now :: int
  tunnel_now :: int
  jwt_iat_now :: int
  jwt_exp_now :: int
  random_challenge :: string
  random_token :: string
  webhook_patch :: "js_error + (nat \<times> string)"
  webhook_repos :: "js_error + (nat \<times> (js_error + repos_reply))"

text \<open>
  The Durable Object namespaces: the storage of the object of each name
  (\<open>idFromName\<close>).
\<close>

record world =
  CHALLENGE_STORAGE :: "string \<Rightarrow> challenge_storage"
  TUNNEL_STORAGE :: "string \<Rightarrow> tunnel_storage"

type_synonym outcome = "(js_error + response) \<times> log_line list \<times> world"

definition jsonResponse :: "response_body \<Rightarrow> nat \<Rightarrow> response" where
  "jsonResponse d st = \<lparr>status = st, body = d\<rparr>"

definition errorResponse :: "string \<Rightarrow> nat \<Rightarrow> response" where
  "errorResponse message st = jsonResponse (Failure message) st"

definition endsWith :: "string \<Rightarrow> string \<Rightarrow> bool" where
  "endsWith s p = (length p \<le> length s \<and> drop (length s - length p) s = p)"

definition challenge_stub ::
  "platform \<Rightarrow> string \<Rightarrow> challenge_store_body do_request \<Rightarrow> world
     \<Rightarrow> challenge_response \<times> world" where
  "challenge_stub P name rq w =
    (let (r, st) = ChallengeStorage_fetch P rq (CHALLENGE_STORAGE w name)
     in (r, w\<lparr>CHALLENGE_STORAGE := (CHALLENGE_STORAGE w)(name := st)\<rparr>))"

definition tunnel_stub ::
  "platform \<Rightarrow> int \<Rightarrow> string \<Rightarrow> tunnel_store_body do_request \<Rightarrow> world
     \<Rightarrow> tunnel_response \<times> world" where
  "tunnel_stub P t name rq w =
    (let (r, st) = TunnelStorage_fetch P t rq (TUNNEL_STORAGE w name)
     in (r, w\<lparr>TUNNEL_STORAGE := (TUNNEL_STORAGE w)(name := st)\<rparr>))"

subsection \<open>POST /challenge\<close>

definition handle_challenge :: "platform \<Rightarrow> ambient \<Rightarrow> env \<Rightarrow> body \<Rightarrow> world \<Rightarrow> outcome" where
  "handle_challenge P A e b w =
    (if falsy (q_clientId b) then
       (Inr (errorResponse ''Bad request'' 400),
        [ConsoleError [T ''Missing clientId in /challenge request'']], w)
     else
       let cid = the (q_clientId b);
           (authorizedClients, log0) = getAuthorizedClients P (map_of e ''AUTHORIZED_CLIENTS'')
       in case read_property authorizedClients cid of
            Inl err \<Rightarrow> (Inl err, log0, w)
          | Inr publicKey \<Rightarrow>
          if falsy_value publicKey then
            (Inr (errorResponse ''Authentication failed'' 401),
             log0 @ [ConsoleError [T (''Unauthorized client: '' @ cid)]], w)
          else
            (case generateChallenge P (random_challenge A) of
               Inl err \<Rightarrow> (Inl err, log0, w)
             | Inr ch \<Rightarrow>
                 let ex = worker_now A + 5 * 60 * 1000;
                     (r, w1) = challenge_stub P cid
                        \<lparr>do_method = ''POST'', url_rest = ''/store'',
                         do_body = Some \<lparr>s_clientId = cid, s_challenge = ch,
                           s_expiresAt = ex\<rparr>\<rparr> w
                 in (Inr (jsonResponse (ChallengeIssued ch ex) 200),
                     log0 @ [ConsoleLog [T (''Challenge generated for client: '' @ cid)]], w1)))"

subsection \<open>POST /verify\<close>

text \<open>
  The two optional calls to the webhook worker. A failure of either is logged
  and changes nothing else.
\<close>

definition webhook_update_log :: "ambient \<Rightarrow> string \<Rightarrow> log_line list" where
  "webhook_update_log A repoUrl =
    (case webhook_patch A of
       Inl err \<Rightarrow> [ConsoleError [T ''Error calling webhook worker:'', E err]]
     | Inr (st, errorText) \<Rightarrow>
         if \<not> ok st then
           [ConsoleError [T (''Failed to update webhook worker for repo '' @ repoUrl @ '': ''),
              N st, T ('' '' @ errorText)]]
         else [ConsoleLog [T (''Successfully updated webhook worker for repo: '' @ repoUrl)]])"

definition fetch_repo_list :: "ambient \<Rightarrow> string list option \<times> log_line list" where
  "fetch_repo_list A =
    (case webhook_repos A of
       Inl err \<Rightarrow> (None, [ConsoleError [T ''Error retrieving repo list:'', E err]])
     | Inr (st, parsed) \<Rightarrow>
         if ok st then
           (case parsed of
              Inl err \<Rightarrow> (None, [ConsoleError [T ''Error retrieving repo list:'', E err]])
            | Inr responseData \<Rightarrow>
                if rr_success responseData \<and> rr_data responseData \<noteq> None then
                  (rr_data responseData,
                   [ConsoleLog [T ''Retrieved '', N (length (the (rr_data responseData))),
                      T '' repos from webhook worker'']])
                else (None, []))
         else (None, [ConsoleError [T ''Failed to retrieve repo list: '', N st]]))"

text \<open>
  The part of the handler after the challenge is deleted: the compact token
  (signed with \<open>SECRET_DATA\<close> when that is a string, with the default
  otherwise), the secret bundle, the webhook update, the access token, the
  optional tunnel registration and repository list, and the reply.
\<close>

definition jwtSecret :: "env \<Rightarrow> string" where
  "jwtSecret e =
     (case map_of e ''SECRET_DATA'' of
        Some (EnvString s) \<Rightarrow> s
      | _ \<Rightarrow> ''default-secret'')"

definition verify_issue :: "platform \<Rightarrow> ambient \<Rightarrow> env \<Rightarrow> body \<Rightarrow> string \<Rightarrow> world \<Rightarrow> outcome" where
  "verify_issue P A e b cid w =
    (case generateJWT P cid (jwtSecret e) (jwt_iat_now A) (jwt_exp_now A) of
          Inl err \<Rightarrow> (Inl err, [], w)
        | Inr token \<Rightarrow>
     (let secretData = extractSecrets e;
          log1 = (if \<not> falsy (q_repoUrl b) \<and> \<not> falsy (q_grpcEndpoint b)
                  then webhook_update_log A (the (q_repoUrl b)) else [])
      in case generateToken P (random_token A) of
          Inl err \<Rightarrow> (Inl err, log1, w)
        | Inr accessToken \<Rightarrow>
     (let (log2, w2) =
            (if \<not> falsy (q_tunnelUrl b) then
               let (tunnelResponse, w1) = tunnel_stub P (tunnel_now A) ''global''
                     \<lparr>do_method = ''POST'', url_rest = ''/store'',
                      do_body = Some \<lparr>b_clientId = Some cid,
                        b_tunnelUrl = q_tunnelUrl b, b_token = Some accessToken\<rparr>\<rparr> w
               in (if ok (t_status tunnelResponse)
                   then [ConsoleLog [T (''Tunnel URL registered for client: '' @ cid)]]
                   else [ConsoleError [T (''Failed to store tunnel URL for client: '' @ cid)]],
                   w1)
             else ([], w));
          (repoList, log3) =
            (if q_includeRepoList b = Some True then fetch_repo_list A else (None, []))
      in (Inr (jsonResponse (Verified token accessToken secretData repoList) 200),
          log1 @ log2 @ log3 @
            [ConsoleLog [T (''Authentication successful for client: '' @ cid)]],
          w2))))"

text \<open>
  \<open>storedData.expiresAt\<close> and \<open>storedData.challenge\<close> of the parsed reply; a
  reply without them reads \<open>undefined\<close>.
\<close>

fun stored_expiresAt :: "challenge_body \<Rightarrow> int option" where
  "stored_expiresAt (ChallengeData d) = Some (expiresAt d)"
| "stored_expiresAt _ = None"

fun stored_challenge :: "challenge_body \<Rightarrow> string option" where
  "stored_challenge (ChallengeData d) = Some (challenge d)"
| "stored_challenge _ = None"

text \<open>
  The handler from the reply of the \<open>/get/\<close> call on: the expiry check (with
  its delete), the comparison, the key lookup, the signature check, and the
  delete that follows a valid signature.
\<close>

definition delete_challenge :: "platform \<Rightarrow> string \<Rightarrow> world \<Rightarrow> world" where
  "delete_challenge P cid w =
     snd (challenge_stub P cid
       \<lparr>do_method = ''DELETE'', url_rest = ''/delete/'' @ cid, do_body = None\<rparr> w)"

definition verify_check ::
  "platform \<Rightarrow> ambient \<Rightarrow> env \<Rightarrow> body \<Rightarrow> string \<Rightarrow> challenge_response \<Rightarrow> world \<Rightarrow> outcome" where
  "verify_check P A e b cid resp w =
    (if \<not> ok (c_status resp) then
       (Inr (errorResponse ''Authentication failed'' 401),
        [ConsoleError [T (''Challenge not found for client: '' @ cid)]], w)
     else if (case stored_expiresAt (c_body resp) of
                Some ex \<Rightarrow> worker_now A > ex | None \<Rightarrow> False) then
       (Inr (errorResponse ''Authentication failed'' 401),
        [ConsoleError [T (''Challenge expired for client: '' @ cid)]],
        delete_challenge P cid w)
     else if stored_challenge (c_body resp) \<noteq> q_challenge b then
       (Inr (errorResponse ''Authentication failed'' 401),
        [ConsoleError [T (''Challenge mismatch for client: '' @ cid)]], w)
     else
       let (authorizedClients, log0) = getAuthorizedClients P (map_of e ''AUTHORIZED_CLIENTS'')
       in case read_property authorizedClients cid of
            Inl err \<Rightarrow> (Inl err, log0, w)
          | Inr publicKeyPem \<Rightarrow>
          if falsy_value publicKeyPem then
            (Inr (errorResponse ''Authentication failed'' 401),
             log0 @ [ConsoleError [T (''Public key not found for client: '' @ cid)]], w)
          else
            (case importPublicKey P publicKeyPem of
               Inl err \<Rightarrow> (Inl err, log0, w)
             | Inr publicKey \<Rightarrow>
            (case verifySignature P publicKey (the (q_challenge b)) (the (q_signature b)) of
               Inl err \<Rightarrow> (Inl err, log0, w)
             | Inr isValid \<Rightarrow>
                 if \<not> isValid then
                   (Inr (errorResponse ''Authentication failed'' 401),
                    log0 @ [ConsoleError [T (''Invalid signature for client: '' @ cid)]], w)
                 else
                   let (r, lg, w1) = verify_issue P A e b cid (delete_challenge P cid w)
                   in (r, log0 @ lg, w1))))"

definition get_challenge :: "platform \<Rightarrow> string \<Rightarrow> world \<Rightarrow> challenge_response \<times> world" where
  "get_challenge P cid w =
     challenge_stub P cid
       \<lparr>do_method = ''GET'', url_rest = ''/get/'' @ cid, do_body = None\<rparr> w"

definition handle_verify :: "platform \<Rightarrow> ambient \<Rightarrow> env \<Rightarrow> body \<Rightarrow> world \<Rightarrow> outcome" where
  "handle_verify P A e b w =
    (if falsy (q_clientId b) \<or> falsy (q_challenge b) \<or> falsy (q_signature b) then
       (Inr (errorResponse ''Bad request'' 400),
        [ConsoleError [T ''Missing fields in /verify request'']], w)
     else
       let cid = the (q_clientId b);
           (resp, w1) = get_challenge P cid w
       in verify_check P A e b cid resp w1)"

subsection \<open>POST /tunnel/register\<close>

text \<open>
  \<open>existingData.success\<close> and \<open>existingData.data.token\<close> of the parsed reply
  of the \<open>/get/\<close> call.
\<close>

fun reply_success :: "tunnel_body \<Rightarrow> bool" where
  "reply_success (TunnelData r) = True"
| "reply_success (TunnelList rs n) = True"
| "reply_success (TunnelMessage m) = True"
| "reply_success (TunnelError m) = False"
| "reply_success (TunnelText m) = False"

fun reply_data_token :: "tunnel_body \<Rightarrow> json option" where
  "reply_data_token (TunnelData r) = map_of (TunnelInfo_props r) ''token''"
| "reply_data_token _ = None"

definition handle_register :: "platform \<Rightarrow> ambient \<Rightarrow> body \<Rightarrow> world \<Rightarrow> outcome" where
  "handle_register P A b w =
    (if falsy (q_clientId b) \<or> falsy (q_tunnelUrl b) \<or> falsy (q_token b) then
       (Inr (errorResponse ''Bad request'' 400),
        [ConsoleError [T ''Missing fields in /tunnel/register request'']], w)
     else
       let cid = the (q_clientId b);
           tok = the (q_token b);
           (getResponse, w1) = tunnel_stub P (tunnel_now A) ''global''
              \<lparr>do_method = ''GET'', url_rest = ''/get/'' @ cid, do_body = None\<rparr> w
       in if \<not> ok (t_status getResponse) then
            (Inr (errorResponse ''Authentication failed'' 401),
             [ConsoleError [T (''No existing tunnel found for client: '' @ cid)]], w1)
          else if \<not> reply_success (t_body getResponse)
                  \<or> reply_data_token (t_body getResponse) \<noteq> Some (JStr tok) then
            (Inr (errorResponse ''Authentication failed'' 401),
             [ConsoleError [T (''Invalid token for client: '' @ cid)]], w1)
          else
            let (updateResponse, w2) = tunnel_stub P (tunnel_now A) ''global''
                  \<lparr>do_method = ''POST'', url_rest = ''/store'',
                   do_body = Some \<lparr>b_clientId = Some cid,
                     b_tunnelUrl = q_tunnelUrl b, b_token = Some tok\<rparr>\<rparr> w1
            in if \<not> ok (t_status updateResponse) then
                 (Inr (errorResponse ''Failed to register tunnel'' 500),
                  [ConsoleError [T ''Failed to update tunnel URL'']], w2)
               else
                 (Inr (jsonResponse (Relayed (t_body updateResponse)) 200),
                  [ConsoleLog [T (''Tunnel URL updated for client: '' @ cid)]], w2))"

subsection \<open>GET /tunnel/{clientId} and GET /tunnels\<close>

definition isServiceBindingRequest :: "request \<Rightarrow> bool" where
  "isServiceBindingRequest rq =
     (x_service_binding rq = Some ''true'' \<or> hostname rq = ''fake-host''
      \<or> endsWith (hostname rq) ''.internal'')"

definition handle_tunnel_get :: "platform \<Rightarrow> ambient \<Rightarrow> request \<Rightarrow> world \<Rightarrow> outcome" where
  "handle_tunnel_get P A rq w =
    (let cid = substring (path rq) 8 in
     if cid = [] then (Inr (errorResponse ''Bad request'' 400), [], w)
     else if \<not> isServiceBindingRequest rq then
       (Inr (errorResponse ''Unauthorized'' 401),
        [ConsoleError [T ''Unauthorized access to /tunnel/{clientId}'']], w)
     else
       let (resp, w1) = tunnel_stub P (tunnel_now A) ''global''
              \<lparr>do_method = ''GET'', url_rest = ''/get/'' @ cid, do_body = None\<rparr> w
       in if \<not> ok (t_status resp) then
            (Inr (errorResponse ''Tunnel not found'' 404),
             [ConsoleError [T (''Tunnel not found for client: '' @ cid)]], w1)
          else (Inr (jsonResponse (Relayed (t_body resp)) 200), [], w1))"

definition handle_tunnels :: "platform \<Rightarrow> ambient \<Rightarrow> request \<Rightarrow> world \<Rightarrow> outcome" where
  "handle_tunnels P A rq w =
    (let log1 = (if \<not> isServiceBindingRequest rq
                 then [ConsoleLog [T ''Public request to /tunnels - requires authentication'']]
                 else []);
         (resp, w1) = tunnel_stub P (tunnel_now A) ''global''
              \<lparr>do_method = ''GET'', url_rest = ''/list'', do_body = None\<rparr> w
     in if \<not> ok (t_status resp) then
          (Inr (errorResponse ''Failed to list tunnels'' 500),
           log1 @ [ConsoleError [T ''Failed to list tunnels'']], w1)
        else (Inr (jsonResponse (Relayed (t_body resp)) 200), log1, w1))"

subsection \<open>The entry point\<close>

text \<open>
  The body of the \<open>try\<close> in \<open>fetch\<close>: the routes in the order of the source. A
  route that reads the body throws when \<open>request.json()\<close> does.
\<close>

definition with_body :: "request \<Rightarrow> world \<Rightarrow> (body \<Rightarrow> outcome) \<Rightarrow> outcome" where
  "with_body rq w h =
     (case json_body rq of
        None \<Rightarrow> (Inl (JsError ''SyntaxError''), [], w)
      | Some b \<Rightarrow> h b)"

definition fetch_try :: "platform \<Rightarrow> ambient \<Rightarrow> env \<Rightarrow> request \<Rightarrow> world \<Rightarrow> outcome" where
  "fetch_try P A e rq w =
    (if path rq = ''/health'' \<and> req_method rq = ''GET'' then
       (Inr (jsonResponse Health 200), [], w)
     else if path rq = ''/challenge'' \<and> req_method rq = ''POST'' then
       with_body rq w (\<lambda>b. handle_challenge P A e b w)
     else if path rq = ''/verify'' \<and> req_method rq = ''POST'' then
       with_body rq w (\<lambda>b. handle_verify P A e b w)
     else if path rq = ''/tunnel/register'' \<and> req_method rq = ''POST'' then
       with_body rq w (\<lambda>b. handle_register P A b w)
     else if startsWith (path rq) ''/tunnel/'' \<and> req_method rq = ''GET'' then
       handle_tunnel_get P A rq w
     else if path rq = ''/tunnels'' \<and> req_method rq = ''GET'' then
       handle_tunnels P A rq w
     else (Inr (errorResponse ''Not found'' 404), [], w))"

text \<open>
  \<open>fetch\<close>: the preflight reply, and the \<open>catch\<close> that turns an exception into
  status 500. What the request changed before it threw stays changed.
\<close>

definition fetch :: "platform \<Rightarrow> ambient \<Rightarrow> env \<Rightarrow> request \<Rightarrow> world \<Rightarrow> response \<times> log_line list \<times> world" where
  "fetch P A e rq w =
    (if req_method rq = ''OPTIONS'' then (\<lparr>status = 200, body = NoBody\<rparr>, [], w)
     else
       (case fetch_try P A e rq w of
          (Inl err, lg, w1) \<Rightarrow>
            (errorResponse ''Internal error'' 500,
             lg @ [ConsoleError [T ''Internal error:'', E err]], w1)
        | (Inr resp, lg, w1) \<Rightarrow> (resp, lg, w1)))"

section \<open>Vocabulary of the statements\<close>

text \<open>
  The worker names a Durable Object route by writing the identity into a URL,
  and the object reads it back from the parsed path. An identity has plain
  URLs when the URL parser returns both paths as written, which it does for an
  identity of unreserved URL characters.
\<close>

definition plain_urls :: "platform \<Rightarrow> string \<Rightarrow> bool" where
  "plain_urls P cid =
     (pathname P (''/get/'' @ cid) = ''/get/'' @ cid
      \<and> pathname P (''/delete/'' @ cid) = ''/delete/'' @ cid)"

text \<open>
  A \<open>POST /verify\<close> request whose body carries the identity, the challenge
  value and the signature, all non-empty.
\<close>

definition is_verify_of :: "request \<Rightarrow> string \<Rightarrow> string \<Rightarrow> string \<Rightarrow> bool" where
  "is_verify_of rq cid c s =
     (req_method rq = ''POST'' \<and> path rq = ''/verify'' \<and> cid \<noteq> [] \<and> c \<noteq> [] \<and> s \<noteq> []
      \<and> (case json_body rq of
            None \<Rightarrow> False
          | Some b \<Rightarrow> q_clientId b = Some cid \<and> q_challenge b = Some c
                      \<and> q_signature b = Some s))"


text \<open>
  The checks of the handler that follow the comparison of the challenge value:
  the read of the identity's key does not throw and gives a truthy value, the
  key imports, and the signature verifies.
\<close>

definition accepts :: "platform \<Rightarrow> env \<Rightarrow> string \<Rightarrow> string \<Rightarrow> string \<Rightarrow> bool" where
  "accepts P e cid c s =
     (case read_property (fst (getAuthorizedClients P (map_of e ''AUTHORIZED_CLIENTS''))) cid of
        Inl err \<Rightarrow> False
      | Inr pem \<Rightarrow> \<not> falsy_value pem \<and>
          (case importPublicKey P pem of
             Inl err \<Rightarrow> False
           | Inr k \<Rightarrow> verifySignature P k c s = Inr True))"

text \<open>
  The storages TunnelStorage can hold: it starts empty and changes through
  \<open>fetch\<close> only. The clock of a deployed worker counts the milliseconds since
  1970; it does not read 0.
\<close>

inductive reachable :: "platform \<Rightarrow> tunnel_storage \<Rightarrow> bool" for P :: platform where
  init: "reachable P []"
| step: "reachable P st \<Longrightarrow> t \<noteq> 0 \<Longrightarrow> TunnelStorage_fetch P t rq st = (resp, st')
         \<Longrightarrow> reachable P st'"

section \<open>Verify requests in flight\<close>

text \<open>
  The handler of \<open>/verify\<close> awaits two calls to ChallengeStorage: the one that
  reads the challenge, and later the one that deletes it. The object runs one
  call at a time, and between the two calls of one request it can run the
  calls of another. A request in flight has not yet read the challenge, or
  has read it and has yet to check and delete it, or has its reply. A
  schedule names, step by step, the request that moves next.
\<close>

datatype job = Pending body | Reading body challenge_response | Replied "js_error + response"

fun job_step :: "platform \<Rightarrow> ambient \<Rightarrow> env \<Rightarrow> job \<Rightarrow> world \<Rightarrow> job \<times> world" where
  "job_step P A e (Pending b) w =
     (if falsy (q_clientId b) \<or> falsy (q_challenge b) \<or> falsy (q_signature b) then
        (Replied (Inr (errorResponse ''Bad request'' 400)), w)
      else
        let (resp, w1) = get_challenge P (the (q_clientId b)) w
        in (Reading b resp, w1))"
| "job_step P A e (Reading b resp) w =
     (let (r, lg, w1) = verify_check P A e b (the (q_clientId b)) resp w
      in (Replied r, w1))"
| "job_step P A e (Replied r) w = (Replied r, w)"

fun run :: "platform \<Rightarrow> ambient \<Rightarrow> env \<Rightarrow> nat list \<Rightarrow> job list \<Rightarrow> world \<Rightarrow> job list \<times> world" where
  "run P A e [] js w = (js, w)"
| "run P A e (i # schedule) js w =
     (if i < length js then
        let (j, w1) = job_step P A e (js ! i) w
        in run P A e schedule (js[i := j]) w1
      else run P A e schedule js w)"

fun job_status :: "job \<Rightarrow> nat option" where
  "job_status (Replied (Inr r)) = Some (status r)"
| "job_status _ = None"

section \<open>A concrete deployment\<close>

text \<open>
  A small platform, environment and state on which the statements are
  evaluated: a toy signature scheme in which the signature of \<open>m\<close> is
  \<open>signed:m\<close>, a base64 decoder that rejects \<open>%\<close>, and one outstanding
  challenge \<open>abc\<close> of the identity \<open>c1\<close> that expires at time 5000. The text
  \<open>clients\<close> parses to a table that gives the identities \<open>c1\<close> and \<open>a b\<close> a
  key; the text \<open>clients-bad-key\<close> parses to a table in which the key of \<open>c1\<close>
  is not base64; any other text does not parse.
\<close>

definition example_platform :: platform where
  "example_platform =
     \<lparr>pathname = (\<lambda>u. u),
      atob = (\<lambda>s. if CHR ''%'' \<in> set s then Inl (JsError ''InvalidCharacterError'') else Inr s),
      btoa = (\<lambda>s. Inr s),
      text_encode = (\<lambda>s. s),
      JSON_stringify = (\<lambda>j. ''{}''),
      JSON_parse = (\<lambda>v.
         if v = Some (EnvString ''clients'') then
           Inr (Parsed (\<lambda>n.
             if n = ''c1'' then Text ''-----BEGIN PUBLIC KEY-----QUJD-----END PUBLIC KEY-----''
             else if n = ''a b'' then Text ''-----BEGIN PUBLIC KEY-----QUJD-----END PUBLIC KEY-----''
             else if n = ''constructor'' then Other True
             else Undefined))
         else if v = Some (EnvString ''clients-bad-key'') then
           Inr (Parsed (\<lambda>n.
             if n = ''c1'' then Text ''%%''
             else if n = ''constructor'' then Other True
             else Undefined))
         else Inl (JsError ''SyntaxError'')),
      empty_object = (\<lambda>n. if n = ''constructor'' then Other True else Undefined),
      replace_spaces = filter (\<lambda>c. c \<noteq> CHR '' '' \<and> c \<noteq> CHR 0x0A),
      importKey_spki = (\<lambda>der. Inr (CryptoKey der)),
      importKey_hmac = (\<lambda>k. if k = [] then Inl (JsError ''DataError'') else Inr (CryptoKey k)),
      subtle_verify = (\<lambda>k sg data. Inr (sg = ''signed:'' @ data)),
      subtle_sign = (\<lambda>k data. Inr ''mac'')\<rparr>"

definition example_env :: env where
  "example_env =
     [(''AUTHORIZED_CLIENTS'', EnvString ''clients''), (''CHALLENGE_STORAGE'', EnvBinding),
      (''TUNNEL_STORAGE'', EnvBinding), (''WEBHOOK_WORKER'', EnvBinding),
      (''SECRET_DATA'', EnvString ''s3cret''), (''API_KEY'', EnvString ''key-1'')]"

text \<open>
  The environment without \<open>AUTHORIZED_CLIENTS\<close>, and the one whose table has
  a key for \<open>c1\<close> that does not import.
\<close>

definition example_env_no_clients :: env where
  "example_env_no_clients =
     [(''CHALLENGE_STORAGE'', EnvBinding), (''TUNNEL_STORAGE'', EnvBinding),
      (''SECRET_DATA'', EnvString ''s3cret'')]"

definition example_env_bad_key :: env where
  "example_env_bad_key =
     [(''AUTHORIZED_CLIENTS'', EnvString ''clients-bad-key''),
      (''CHALLENGE_STORAGE'', EnvBinding), (''TUNNEL_STORAGE'', EnvBinding),
      (''SECRET_DATA'', EnvString ''s3cret'')]"

definition example_ambient :: "int \<Rightarrow> ambient" where
  "example_ambient t =
     \<lparr>worker_now = t, tunnel_now = t, jwt_iat_now = t, jwt_exp_now = t,
      random_challenge = ''rnd'', random_token = ''tok'',
      webhook_patch = Inr (200, []),
      webhook_repos = Inr (200, Inr \<lparr>rr_success = True, rr_data = Some [''repo1'']\<rparr>)\<rparr>"

definition example_entry :: challenge_data where
  "example_entry = \<lparr>challenge = ''abc'', expiresAt = 5000\<rparr>"

definition example_world :: world where
  "example_world =
     \<lparr>CHALLENGE_STORAGE = (\<lambda>n. Map.empty)(''c1'' := [''c1'' \<mapsto> example_entry]),
      TUNNEL_STORAGE = (\<lambda>n. [])\<rparr>"

definition example_verify :: "string \<Rightarrow> string \<Rightarrow> string option \<Rightarrow> request" where
  "example_verify c s url =
     \<lparr>req_method = ''POST'', path = ''/verify'', hostname = ''auth.example'',
      x_service_binding = None,
      json_body = Some \<lparr>q_clientId = Some ''c1'', q_challenge = Some c, q_signature = Some s,
        q_repoUrl = None, q_grpcEndpoint = None, q_includeRepoList = None,
        q_tunnelUrl = url, q_token = None\<rparr>\<rparr>"

definition example_register :: "string \<Rightarrow> string \<Rightarrow> request" where
  "example_register url tok =
     \<lparr>req_method = ''POST'', path = ''/tunnel/register'', hostname = ''auth.example'',
      x_service_binding = None,
      json_body = Some \<lparr>q_clientId = Some ''c1'', q_challenge = None, q_signature = None,
        q_repoUrl = None, q_grpcEndpoint = None, q_includeRepoList = None,
        q_tunnelUrl = Some url, q_token = Some tok\<rparr>\<rparr>"

text \<open>
  A \<open>/verify\<close> of \<open>c1\<close> at time 1000 in the example world, under an
  environment and with a challenge value and a signature: the reply, the log,
  and the entry of \<open>c1\<close> when the request has ended.
\<close>

definition example_attempt ::
  "env \<Rightarrow> string \<Rightarrow> string \<Rightarrow> response \<times> log_line list \<times> challenge_data option" where
  "example_attempt e c s =
     (let r = fetch example_platform (example_ambient 1000) e (example_verify c s None)
                example_world
      in (fst r, fst (snd r), CHALLENGE_STORAGE (snd (snd r)) ''c1'' ''c1''))"

text \<open>
  The outcome of a first, valid \<open>/verify\<close> at time 1000 that also registers
  the tunnel \<open>https://t1\<close>.
\<close>

definition example_verified :: "response \<times> log_line list \<times> world" where
  "example_verified =
     fetch example_platform (example_ambient 1000) example_env
       (example_verify ''abc'' ''signed:abc'' (Some ''https://t1'')) example_world"

text \<open>Requests to TunnelStorage and a storage with one record.\<close>

definition example_store :: "string \<Rightarrow> string \<Rightarrow> tunnel_store_body do_request" where
  "example_store url tok =
     \<lparr>do_method = ''POST'', url_rest = ''/store'',
      do_body = Some \<lparr>b_clientId = Some ''c1'', b_tunnelUrl = Some url,
        b_token = Some tok\<rparr>\<rparr>"

definition example_get :: "tunnel_store_body do_request" where
  "example_get = \<lparr>do_method = ''GET'', url_rest = ''/get/c1'', do_body = None\<rparr>"

definition example_record :: TunnelObject where
  "example_record =
     \<lparr>clientId = ''c1'', tunnelUrl = ''https://t1'', updatedAt = 1000, createdAt = 1000,
      others = []\<rparr>"













section \<open>The calls to ChallengeStorage\<close>

lemma get_challenge_plain:
  assumes "plain_urls P cid"
  shows "get_challenge P cid w =
     ((case CHALLENGE_STORAGE w cid cid of
         None \<Rightarrow> \<lparr>c_status = 404, c_body = ChallengeError ''Challenge not found''\<rparr>
       | Some d \<Rightarrow> \<lparr>c_status = 200, c_body = ChallengeData d\<rparr>), w)"
  using assms
  by (simp add: plain_urls_def get_challenge_def challenge_stub_def ChallengeStorage_fetch_def
      startsWith_def substring_def split: option.splits)

lemma delete_challenge_plain:
  assumes "plain_urls P cid"
  shows "delete_challenge P cid w =
     w\<lparr>CHALLENGE_STORAGE := (CHALLENGE_STORAGE w)(cid := (CHALLENGE_STORAGE w cid)(cid := None))\<rparr>"
  using assms
  by (simp add: plain_urls_def delete_challenge_def challenge_stub_def ChallengeStorage_fetch_def
      startsWith_def substring_def)

lemma startsWith_split: "startsWith s p \<Longrightarrow> s = p @ substring s (length p)"
  unfolding startsWith_def substring_def by (metis append_take_drop_id)

text \<open>
  The worker stores the challenge of an identity in the object of that name
  under the key of that name. When the parser rewrites the \<open>/get/\<close> URL of
  the identity, the lookup in such an object finds nothing.
\<close>

lemma rewritten_identity_not_found:
  assumes "pathname P (''/get/'' @ cid) \<noteq> ''/get/'' @ cid"
    and "dom (CHALLENGE_STORAGE w cid) \<subseteq> {cid}"
  shows "c_status (fst (get_challenge P cid w)) = 404"
proof -
  have "CHALLENGE_STORAGE w cid (substring (pathname P (''/get/'' @ cid)) 5) = None"
    if "startsWith (pathname P (''/get/'' @ cid)) ''/get/''"
  proof -
    have "length ''/get/'' = 5" by simp
    with startsWith_split[OF that] have "pathname P (''/get/'' @ cid) =
        ''/get/'' @ substring (pathname P (''/get/'' @ cid)) 5"
      by metis
    with assms(1) have "substring (pathname P (''/get/'' @ cid)) 5 \<noteq> cid"
      by metis
    with assms(2) show ?thesis by blast
  qed
  then show ?thesis
    by (auto simp: get_challenge_def challenge_stub_def ChallengeStorage_fetch_def Let_def
        split: option.splits)
qed

lemma verify_issue_challenges:
  "CHALLENGE_STORAGE (snd (snd (verify_issue P A e b cid w))) = CHALLENGE_STORAGE w"
  by (simp add: verify_issue_def tunnel_stub_def Let_def split: sum.splits prod.splits)

lemma verify_issue_challenges_of:
  "verify_issue P A e b cid w = (r, lg, w1) \<Longrightarrow> CHALLENGE_STORAGE w1 = CHALLENGE_STORAGE w"
  using verify_issue_challenges[of P A e b cid w] by simp

section \<open>The route of a verify request\<close>

lemma not_options: "is_verify_of rq cid c s \<Longrightarrow> req_method rq \<noteq> ''OPTIONS''"
  by (auto simp: is_verify_of_def)

lemma fetch_verify:
  assumes "is_verify_of rq cid c s"
  obtains b where "json_body rq = Some b" and "q_clientId b = Some cid"
    and "q_challenge b = Some c" and "q_signature b = Some s"
    and "fetch_try P A e rq w =
           verify_check P A e b cid (fst (get_challenge P cid w)) (snd (get_challenge P cid w))"
  using assms
  by (auto simp: is_verify_of_def fetch_try_def with_body_def handle_verify_def
      split: option.splits prod.splits)

lemma verify_check_found:
  assumes "plain_urls P cid" and "is_verify_of rq cid c s"
    and "CHALLENGE_STORAGE w cid cid = Some d"
  obtains b where "json_body rq = Some b" and "q_clientId b = Some cid"
    and "q_challenge b = Some c" and "q_signature b = Some s"
    and "fetch_try P A e rq w =
           verify_check P A e b cid \<lparr>c_status = 200, c_body = ChallengeData d\<rparr> w"
proof -
  obtain b where b: "json_body rq = Some b" "q_clientId b = Some cid" "q_challenge b = Some c"
    "q_signature b = Some s"
    "fetch_try P A e rq w =
       verify_check P A e b cid (fst (get_challenge P cid w)) (snd (get_challenge P cid w))"
    using assms(2) by (rule fetch_verify)
  have "get_challenge P cid w = (\<lparr>c_status = 200, c_body = ChallengeData d\<rparr>, w)"
    using assms(1,3) by (simp add: get_challenge_plain)
  with b that show thesis by simp
qed

lemma fetch_world:
  "req_method rq \<noteq> ''OPTIONS'' \<Longrightarrow> snd (snd (fetch P A e rq w)) = snd (snd (fetch_try P A e rq w))"
  by (simp add: fetch_def split: prod.splits sum.splits)

lemma fetch_success:
  assumes "fetch P A e rq w = (r, lg, w1)" and "status r = 200" and "req_method rq \<noteq> ''OPTIONS''"
  shows "fetch_try P A e rq w = (Inr r, lg, w1)"
  using assms
  by (auto simp: fetch_def errorResponse_def jsonResponse_def split: prod.splits sum.splits)

lemma verify_check_world:
  "CHALLENGE_STORAGE
     (snd (snd (verify_check P A e b cid \<lparr>c_status = 200, c_body = ChallengeData d\<rparr> w))) =
     (if worker_now A > expiresAt d
         \<or> (Some (challenge d) = q_challenge b
            \<and> accepts P e cid (the (q_challenge b)) (the (q_signature b)))
      then CHALLENGE_STORAGE (delete_challenge P cid w) else CHALLENGE_STORAGE w)"
  by (auto simp: verify_check_def ok_def accepts_def verify_issue_challenges_of
      split: option.splits sum.splits prod.splits)

lemma verify_check_reply:
  assumes "verify_check P A e b cid resp w = (Inr r, lg, w1)" and "status r = 200"
  shows "\<exists>lg'. verify_issue P A e b cid (delete_challenge P cid w) = (Inr r, lg', w1)"
  using assms
  by (auto simp: verify_check_def errorResponse_def jsonResponse_def Let_def
      split: if_splits sum.splits prod.splits)

text \<open>
  So a \<open>/verify\<close> for an identity whose \<open>/get/\<close> URL the parser rewrites is
  answered 401 with no challenge found, whatever it presents and whatever the
  clock reads, and it changes nothing.
\<close>

lemma get_challenge_world: "snd (get_challenge P cid w) = w"
  by (simp add: get_challenge_def challenge_stub_def ChallengeStorage_fetch_def Let_def
      split: option.splits)

lemma rewritten_identity_verify:
  assumes "pathname P (''/get/'' @ cid) \<noteq> ''/get/'' @ cid"
    and "dom (CHALLENGE_STORAGE w cid) \<subseteq> {cid}"
    and "is_verify_of rq cid c s"
  shows "fetch P A e rq w =
           (errorResponse ''Authentication failed'' 401,
            [ConsoleError [T (''Challenge not found for client: '' @ cid)]], w)"
proof -
  obtain b where b:
    "fetch_try P A e rq w =
       verify_check P A e b cid (fst (get_challenge P cid w)) (snd (get_challenge P cid w))"
    using assms(3) by (rule fetch_verify)
  have "\<not> ok (c_status (fst (get_challenge P cid w)))"
    using rewritten_identity_not_found[OF assms(1,2)] by (simp add: ok_def)
  with b have "fetch_try P A e rq w =
      (Inr (errorResponse ''Authentication failed'' 401),
       [ConsoleError [T (''Challenge not found for client: '' @ cid)]], w)"
    by (simp add: verify_check_def get_challenge_world)
  then show ?thesis
    using not_options[OF assms(3)] by (simp add: fetch_def)
qed

section \<open>Consumption of a challenge\<close>







text \<open>
  Claim C3, as the code has it. A \<open>/verify\<close> that finds an entry deletes it in
  two cases only: the entry is past its \<open>expiresAt\<close>, or the presented value
  equals the stored one and the key lookup, the key import and the signature
  check all succeed. In every other case (a different value, no key, a key
  that does not import, an invalid signature) the entry is still stored when
  the request ends. The statement takes the parser to return the identity's
  two URLs as written; when it rewrites the \<open>/get/\<close> URL, no entry that the
  worker stored is found (\<open>rewritten_identity_not_found\<close>).
\<close>

theorem verify_deletes_exactly_when:
  assumes "plain_urls P cid" and "is_verify_of rq cid c s"
    and "CHALLENGE_STORAGE w cid cid = Some d"
  shows "CHALLENGE_STORAGE (snd (snd (fetch P A e rq w))) cid cid =
           (if worker_now A > expiresAt d \<or> (challenge d = c \<and> accepts P e cid c s)
            then None else Some d)"
proof -
  obtain b where b: "q_challenge b = Some c" "q_signature b = Some s"
    "fetch_try P A e rq w =
       verify_check P A e b cid \<lparr>c_status = 200, c_body = ChallengeData d\<rparr> w"
    using assms(1-3) by (rule verify_check_found)
  have "snd (snd (fetch P A e rq w)) =
          snd (snd (verify_check P A e b cid \<lparr>c_status = 200, c_body = ChallengeData d\<rparr> w))"
    using not_options[OF assms(2)] b(3) by (simp add: fetch_world)
  then show ?thesis
    using assms(3) b(1,2)
    by (simp add: verify_check_world delete_challenge_plain[OF assms(1)])
qed

theorem verify_deletes_exactly_when_witness:
  "plain_urls example_platform ''c1''
   \<and> is_verify_of (example_verify ''abc'' ''signed:abc'' None) ''c1'' ''abc'' ''signed:abc''
   \<and> CHALLENGE_STORAGE example_world ''c1'' ''c1'' = Some example_entry
   \<and> accepts example_platform example_env ''c1'' ''abc'' ''signed:abc''
   \<and> challenge example_entry = ''abc''
   \<and> CHALLENGE_STORAGE (snd (snd (fetch example_platform (example_ambient 1000) example_env
        (example_verify ''abc'' ''signed:abc'' None) example_world))) ''c1'' ''c1'' = None"
proof -
  have h1: "plain_urls example_platform ''c1''" by code_simp
  have h2: "is_verify_of (example_verify ''abc'' ''signed:abc'' None) ''c1'' ''abc'' ''signed:abc''"
    by code_simp
  have h3: "CHALLENGE_STORAGE example_world ''c1'' ''c1'' = Some example_entry" by code_simp
  have h4: "accepts example_platform example_env ''c1'' ''abc'' ''signed:abc''" by code_simp
  have h5: "challenge example_entry = ''abc''" by code_simp
  from verify_deletes_exactly_when[OF h1 h2 h3, of "example_ambient 1000" example_env]
    h1 h2 h3 h4 h5
  show ?thesis by simp
qed

text \<open>
  The claim as written fails at each check that follows the expiry check. The
  entry \<open>abc\<close> of \<open>c1\<close> is found, before its expiry, by a request that
  presents the right value with an invalid signature, by one that presents
  the right value and a valid signature when the environment has no table of
  keys, by one that does so when the key of \<open>c1\<close> does not import, and by one
  that presents another value. Each is refused, and the entry is still stored
  when each has ended.
\<close>

theorem failed_checks_keep_entry_counterexample:
  "CHALLENGE_STORAGE example_world ''c1'' ''c1'' = Some example_entry
   \<and> example_entry = \<lparr>challenge = ''abc'', expiresAt = 5000\<rparr>
   \<and> example_attempt example_env ''abc'' ''signed:other'' =
        (errorResponse ''Authentication failed'' 401,
         [ConsoleError [T ''Invalid signature for client: c1'']], Some example_entry)
   \<and> example_attempt example_env_no_clients ''abc'' ''signed:abc'' =
        (errorResponse ''Authentication failed'' 401,
         [ConsoleError [T ''Failed to parse AUTHORIZED_CLIENTS:'', E (JsError ''SyntaxError'')],
          ConsoleError [T ''Public key not found for client: c1'']], Some example_entry)
   \<and> example_attempt example_env_bad_key ''abc'' ''signed:abc'' =
        (errorResponse ''Internal error'' 500,
         [ConsoleError [T ''Internal error:'', E (JsError ''InvalidCharacterError'')]],
         Some example_entry)
   \<and> example_attempt example_env ''wrong'' ''signed:wrong'' =
        (errorResponse ''Authentication failed'' 401,
         [ConsoleError [T ''Challenge mismatch for client: c1'']], Some example_entry)"
  by code_simp

text \<open>
  Claim C5. After a \<open>/verify\<close> for an identity has succeeded (status 200), a
  second \<open>/verify\<close> for that identity with the same challenge value fails with
  status 401 and logs that no challenge was found; it changes nothing.
\<close>

theorem second_verify_not_found:
  assumes "plain_urls P cid" and "is_verify_of rq cid c s"
    and "fetch P A e rq w = (r, lg, w1)" and "status r = 200"
    and "is_verify_of rq2 cid c s2"
  shows "fetch P A2 e2 rq2 w1 =
           (errorResponse ''Authentication failed'' 401,
            [ConsoleError [T (''Challenge not found for client: '' @ cid)]], w1)"
proof -
  obtain b where b:
    "fetch_try P A e rq w =
       verify_check P A e b cid (fst (get_challenge P cid w)) (snd (get_challenge P cid w))"
    using assms(2) by (rule fetch_verify)
  have "fetch_try P A e rq w = (Inr r, lg, w1)"
    using assms(3,4) not_options[OF assms(2)] by (rule fetch_success)
  with b have "verify_check P A e b cid (fst (get_challenge P cid w))
      (snd (get_challenge P cid w)) = (Inr r, lg, w1)"
    by simp
  from verify_check_reply[OF this assms(4)] obtain lg' where
    "verify_issue P A e b cid (delete_challenge P cid (snd (get_challenge P cid w)))
      = (Inr r, lg', w1)"
    by blast
  then have "w1 = snd (snd (verify_issue P A e b cid
      (delete_challenge P cid (snd (get_challenge P cid w)))))"
    by simp
  then have "CHALLENGE_STORAGE w1 =
      CHALLENGE_STORAGE (delete_challenge P cid (snd (get_challenge P cid w)))"
    by (simp add: verify_issue_challenges)
  then have gone: "CHALLENGE_STORAGE w1 cid cid = None"
    by (simp add: delete_challenge_plain[OF assms(1)])
  obtain b2 where b2:
    "fetch_try P A2 e2 rq2 w1 =
       verify_check P A2 e2 b2 cid (fst (get_challenge P cid w1)) (snd (get_challenge P cid w1))"
    using assms(5) by (rule fetch_verify)
  have "get_challenge P cid w1 =
      (\<lparr>c_status = 404, c_body = ChallengeError ''Challenge not found''\<rparr>, w1)"
    using gone by (simp add: get_challenge_plain[OF assms(1)])
  with b2 have "fetch_try P A2 e2 rq2 w1 =
      (Inr (errorResponse ''Authentication failed'' 401),
       [ConsoleError [T (''Challenge not found for client: '' @ cid)]], w1)"
    by (simp add: verify_check_def ok_def)
  then show ?thesis
    using not_options[OF assms(5)] by (simp add: fetch_def)
qed

theorem second_verify_not_found_witness:
  "plain_urls example_platform ''c1''
   \<and> is_verify_of (example_verify ''abc'' ''signed:abc'' (Some ''https://t1''))
        ''c1'' ''abc'' ''signed:abc''
   \<and> status (fst example_verified) = 200
   \<and> fetch example_platform (example_ambient 2000) example_env
        (example_verify ''abc'' ''signed:abc'' None) (snd (snd example_verified)) =
        (errorResponse ''Authentication failed'' 401,
         [ConsoleError [T (''Challenge not found for client: '' @ ''c1'')]],
         snd (snd example_verified))"
proof -
  have h1: "plain_urls example_platform ''c1''" by code_simp
  have h2: "is_verify_of (example_verify ''abc'' ''signed:abc'' (Some ''https://t1''))
              ''c1'' ''abc'' ''signed:abc''"
    by code_simp
  have h3: "fetch example_platform (example_ambient 1000) example_env
              (example_verify ''abc'' ''signed:abc'' (Some ''https://t1'')) example_world =
            (fst example_verified, fst (snd example_verified), snd (snd example_verified))"
    by (simp add: example_verified_def)
  have h4: "status (fst example_verified) = 200" by code_simp
  have h5: "is_verify_of (example_verify ''abc'' ''signed:abc'' None) ''c1'' ''abc'' ''signed:abc''"
    by code_simp
  from second_verify_not_found[OF h1 h2 h3 h4 h5, of "example_ambient 2000" example_env]
    h1 h2 h4
  show ?thesis by blast
qed

text \<open>
  A request that takes its two steps with no other step in between does what
  the handler does.
\<close>

lemma run_alone:
  "run P A e [0, 0] [Pending b] w =
     ([Replied (fst (handle_verify P A e b w))], snd (snd (handle_verify P A e b w)))"
  by (simp add: handle_verify_def split: prod.splits)

text \<open>One request after the other: the first is answered 200, the second 401.\<close>

lemma sequential_verifies_one_succeeds:
  "map job_status (fst (run example_platform (example_ambient 1000) example_env [0, 0, 1, 1]
      [Pending (the (json_body (example_verify ''abc'' ''signed:abc'' None))),
       Pending (the (json_body (example_verify ''abc'' ''signed:abc'' None)))] example_world))
   = [Some 200, Some 401]"
  by code_simp

text \<open>
  Claim C7, evaluated on the code. Two requests carry the same valid
  challenge and signature. In the schedule in which both read the challenge
  before either checks and deletes it, both are answered 200.
\<close>

theorem concurrent_verifies_both_succeed:
  "map job_status (fst (run example_platform (example_ambient 1000) example_env [0, 1, 0, 1]
      [Pending (the (json_body (example_verify ''abc'' ''signed:abc'' None))),
       Pending (the (json_body (example_verify ''abc'' ''signed:abc'' None)))] example_world))
   = [Some 200, Some 200]"
  by code_simp

section \<open>The tunnel registry\<close>

lemma store_route:
  assumes "pathname P ''/store'' = ''/store''" and "b_clientId b = Some cid" and "cid \<noteq> []"
    and "b_tunnelUrl b = Some url" and "url \<noteq> []"
  shows "TunnelStorage_fetch P t
           \<lparr>do_method = ''POST'', url_rest = ''/store'', do_body = Some b\<rparr> st =
     (let r' = \<lparr>clientId = cid, tunnelUrl = url, updatedAt = t,
                createdAt = (case map_of st (''tunnel:'' @ cid) of None \<Rightarrow> t
                             | Some x \<Rightarrow> if createdAt x = 0 then t else createdAt x),
                others = []\<rparr>
      in (\<lparr>t_status = 200, t_body = TunnelData r'\<rparr>, AList.update (''tunnel:'' @ cid) r' st))"
  using assms by (simp add: TunnelStorage_fetch_def Let_def)

lemma get_route:
  assumes "pathname P (''/get/'' @ cid) = ''/get/'' @ cid" and "cid \<noteq> []"
  shows "TunnelStorage_fetch P t
           \<lparr>do_method = ''GET'', url_rest = ''/get/'' @ cid, do_body = None\<rparr> st =
     ((case map_of st (''tunnel:'' @ cid) of
         None \<Rightarrow> \<lparr>t_status = 404, t_body = TunnelError ''Tunnel not found''\<rparr>
       | Some r \<Rightarrow> \<lparr>t_status = 200, t_body = TunnelData r\<rparr>), st)"
  using assms
  by (simp add: TunnelStorage_fetch_def Let_def startsWith_def substring_def split: option.splits)

text \<open>
  A record's \<open>createdAt\<close> is a reading of the clock, so no record of a storage
  the object can hold has \<open>createdAt\<close> 0.
\<close>

lemma createdAt_nonzero_kept:
  assumes "\<forall>k r. map_of st k = Some r \<longrightarrow> createdAt r \<noteq> 0" and "t \<noteq> 0"
    and "TunnelStorage_fetch P t rq st = (resp, st')" and "map_of st' k = Some r"
  shows "createdAt r \<noteq> 0"
  using assms
  by (auto simp: TunnelStorage_fetch_def Let_def update_conv' delete_conv'
      split: if_splits option.splits)

lemma reachable_createdAt:
  assumes "reachable P st" and "map_of st k = Some r"
  shows "createdAt r \<noteq> 0"
  using assms
proof (induction arbitrary: k r)
  case init
  then show ?case by simp
next
  case (step st t rq resp st')
  from step.IH have "\<forall>k r. map_of st k = Some r \<longrightarrow> createdAt r \<noteq> 0"
    by blast
  then show ?case
    using step.hyps(2,3) step.prems by (rule createdAt_nonzero_kept)
qed

text \<open>
  A record the object wrote has the four properties of the interface and no
  other, so none of a storage the object can hold has a \<open>token\<close>.
\<close>

lemma others_empty_kept:
  assumes "\<forall>k r. map_of st k = Some r \<longrightarrow> others r = []"
    and "TunnelStorage_fetch P t rq st = (resp, st')" and "map_of st' k = Some r"
  shows "others r = []"
  using assms
  by (auto simp: TunnelStorage_fetch_def Let_def update_conv' delete_conv'
      split: if_splits option.splits)

lemma reachable_others:
  assumes "reachable P st" and "map_of st k = Some r"
  shows "others r = []"
  using assms
proof (induction arbitrary: k r)
  case init
  then show ?case by simp
next
  case (step st t rq resp st')
  from step.IH have "\<forall>k r. map_of st k = Some r \<longrightarrow> others r = []"
    by blast
  then show ?case
    using step.hyps(3) step.prems by (rule others_empty_kept)
qed

lemma reachable_without_token:
  assumes "reachable P st" and "map_of st k = Some r"
  shows "map_of (TunnelInfo_props r) ''token'' = None"
  using reachable_others[OF assms] by (simp add: TunnelInfo_props_def)

text \<open>
  On such a storage no reply of the object to a \<open>GET\<close> carries a \<open>token\<close> in
  its \<open>data\<close>, and the token check of \<open>/tunnel/register\<close> fails on every
  request that reaches it.
\<close>

lemma reachable_reply_without_token:
  assumes "reachable P st" and "do_method rq = ''GET''"
  shows "reply_data_token (t_body (fst (TunnelStorage_fetch P t rq st))) = None"
  using assms reachable_without_token[OF assms(1)]
  by (auto simp: TunnelStorage_fetch_def Let_def split: option.splits)

lemma reachable_register_is_rejected:
  assumes "reachable P (TUNNEL_STORAGE w ''global'')"
    and "fst (handle_register P A b w) = Inr r"
  shows "status r = 400 \<or> status r = 401"
proof -
  let ?get = "\<lparr>do_method = ''GET'', url_rest = ''/get/'' @ the (q_clientId b),
                do_body = None\<rparr> :: tunnel_store_body do_request"
  have "reply_data_token (t_body (fst (TunnelStorage_fetch P (tunnel_now A) ?get
          (TUNNEL_STORAGE w ''global'')))) = None"
    using assms(1) by (rule reachable_reply_without_token) simp
  then show ?thesis
    using assms(2)
    by (auto simp: handle_register_def tunnel_stub_def errorResponse_def jsonResponse_def
        Let_def split: if_splits prod.splits)
qed

text \<open>
  Claim C1, evaluated on the code. The store route receives the token
  \<open>tok\<close> with the identity and the URL and answers 200; the record it wrote,
  read back through the get route, has the four properties of \<open>TunnelInfo\<close>
  and no \<open>token\<close>.
\<close>

theorem store_drops_token:
  "(let (stored, st1) = TunnelStorage_fetch example_platform 1000
                          (example_store ''https://t1'' ''tok'') [];
        (fetched, st2) = TunnelStorage_fetch example_platform 2000 example_get st1
    in t_status stored = 200
       \<and> fetched = \<lparr>t_status = 200, t_body = TunnelData example_record\<rparr>
       \<and> reply_data_token (t_body fetched) = None)"
  by code_simp



text \<open>
  With the records this object writes, the condition is never met: after a
  \<open>/verify\<close> that registered the tunnel of \<open>c1\<close> and returned the access
  token \<open>tok\<close>, the record has no \<open>token\<close>, and the \<open>/tunnel/register\<close>
  that presents \<open>tok\<close> is answered 401.
\<close>

lemma register_after_verify_is_rejected:
  "(let (reply, lg, w2) = fetch example_platform (example_ambient 2000) example_env
                            (example_register ''https://t2'' ''tok'') (snd (snd example_verified))
    in body (fst example_verified) =
         Verified ''{}.{}.mac'' ''tok'' [(''SECRET_DATA'', ''s3cret''), (''API_KEY'', ''key-1'')] None
       \<and> map_of (TUNNEL_STORAGE (snd (snd example_verified)) ''global'') ''tunnel:c1''
           = Some example_record
       \<and> reply = errorResponse ''Authentication failed'' 401
       \<and> lg = [ConsoleError [T ''Invalid token for client: c1'']]
       \<and> map_of (TUNNEL_STORAGE w2 ''global'') ''tunnel:c1'' = Some example_record)"
  by code_simp

text \<open>
  Claim C8. In a storage the object can hold, a store for an identity that has
  a record answers with the record of the new URL, \<open>updatedAt\<close> the time of the
  write and \<open>createdAt\<close> unchanged, whatever token the request carries, and a
  get that follows returns that record.
\<close>

theorem store_keeps_createdAt:
  assumes "reachable P st"
    and "pathname P ''/store'' = ''/store''" and "plain_urls P cid"
    and "b_clientId b = Some cid" and "cid \<noteq> []"
    and "b_tunnelUrl b = Some url" and "url \<noteq> []"
    and "map_of st (''tunnel:'' @ cid) = Some r"
  shows "fst (TunnelStorage_fetch P t
              \<lparr>do_method = ''POST'', url_rest = ''/store'', do_body = Some b\<rparr> st) =
           \<lparr>t_status = 200, t_body = TunnelData
              \<lparr>clientId = cid, tunnelUrl = url, updatedAt = t, createdAt = createdAt r,
               others = []\<rparr>\<rparr>
         \<and> fst (TunnelStorage_fetch P t2
              \<lparr>do_method = ''GET'', url_rest = ''/get/'' @ cid, do_body = None\<rparr>
              (snd (TunnelStorage_fetch P t
                 \<lparr>do_method = ''POST'', url_rest = ''/store'', do_body = Some b\<rparr> st))) =
           \<lparr>t_status = 200, t_body = TunnelData
              \<lparr>clientId = cid, tunnelUrl = url, updatedAt = t, createdAt = createdAt r,
               others = []\<rparr>\<rparr>"
proof -
  have g: "pathname P (''/get/'' @ cid) = ''/get/'' @ cid"
    using assms(3) by (simp add: plain_urls_def)
  have nz: "createdAt r \<noteq> 0"
    using assms(1,8) by (rule reachable_createdAt)
  define r' :: TunnelObject where "r' = \<lparr>clientId = cid, tunnelUrl = url, updatedAt = t,
    createdAt = createdAt r, others = []\<rparr>"
  define st' where "st' = AList.update (''tunnel:'' @ cid) r' st"
  have put: "TunnelStorage_fetch P t
      \<lparr>do_method = ''POST'', url_rest = ''/store'', do_body = Some b\<rparr> st =
      (\<lparr>t_status = 200, t_body = TunnelData r'\<rparr>, st')"
    unfolding store_route[OF assms(2) assms(4-7)]
    using assms(8) nz by (simp add: r'_def st'_def Let_def)
  have "map_of st' (''tunnel:'' @ cid) = Some r'"
    unfolding st'_def update_conv' by simp
  then have get: "TunnelStorage_fetch P t2
      \<lparr>do_method = ''GET'', url_rest = ''/get/'' @ cid, do_body = None\<rparr> st' =
      (\<lparr>t_status = 200, t_body = TunnelData r'\<rparr>, st')"
    unfolding get_route[OF g assms(5)] by simp
  have "fst (TunnelStorage_fetch P t2
      \<lparr>do_method = ''GET'', url_rest = ''/get/'' @ cid, do_body = None\<rparr>
      (snd (TunnelStorage_fetch P t
         \<lparr>do_method = ''POST'', url_rest = ''/store'', do_body = Some b\<rparr> st))) =
      \<lparr>t_status = 200, t_body = TunnelData r'\<rparr>"
    unfolding put snd_conv get by simp
  moreover have "fst (TunnelStorage_fetch P t
      \<lparr>do_method = ''POST'', url_rest = ''/store'', do_body = Some b\<rparr> st) =
      \<lparr>t_status = 200, t_body = TunnelData r'\<rparr>"
    unfolding put by simp
  ultimately show ?thesis
    unfolding r'_def by (rule conjI[rotated])
qed

theorem store_keeps_createdAt_witness:
  "reachable example_platform [(''tunnel:c1'', example_record)]
   \<and> pathname example_platform ''/store'' = ''/store''
   \<and> plain_urls example_platform ''c1''
   \<and> map_of [(''tunnel:c1'', example_record)] (''tunnel:'' @ ''c1'') = Some example_record
   \<and> fst (TunnelStorage_fetch example_platform 3000 example_get
        (snd (TunnelStorage_fetch example_platform 2000 (example_store ''https://t2'' ''tok'')
           [(''tunnel:c1'', example_record)]))) =
      \<lparr>t_status = 200, t_body = TunnelData
         \<lparr>clientId = ''c1'', tunnelUrl = ''https://t2'', updatedAt = 2000, createdAt = 1000,
          others = []\<rparr>\<rparr>"
proof -
  let ?b = "\<lparr>b_clientId = Some ''c1'', b_tunnelUrl = Some ''https://t2'',
              b_token = Some ''tok''\<rparr>"
  have w: "TunnelStorage_fetch example_platform 1000 (example_store ''https://t1'' ''tok'') [] =
          (\<lparr>t_status = 200, t_body = TunnelData example_record\<rparr>,
           [(''tunnel:c1'', example_record)])"
    by code_simp
  have "(1000::int) \<noteq> 0" by simp
  with reachable.init have h0: "reachable example_platform [(''tunnel:c1'', example_record)]"
    using w by (rule reachable.step)
  have h1: "pathname example_platform ''/store'' = ''/store''" by code_simp
  have h2: "plain_urls example_platform ''c1''" by code_simp
  have h3: "b_clientId ?b = Some ''c1''" by code_simp
  have h4: "''c1'' \<noteq> []" by simp
  have h5: "b_tunnelUrl ?b = Some ''https://t2''" by code_simp
  have h6: "''https://t2'' \<noteq> []" by simp
  have h7: "map_of [(''tunnel:c1'', example_record)] (''tunnel:'' @ ''c1'') = Some example_record"
    by simp
  have c: "createdAt example_record = 1000" by code_simp
  from store_keeps_createdAt[OF h0 h1 h2 h3 h4 h5 h6 h7, where t = 2000 and ?t2.0 = 3000]
    h0 h1 h2 h7 c
  show ?thesis by (simp add: example_store_def example_get_def)
qed

section \<open>Signature verification\<close>

text \<open>
  Claim C9. \<open>verifySignature\<close> returns a boolean on every key, challenge and
  signature: it never ends in an exception. When the base64 decoding throws,
  and when the decoding succeeds but the cryptographic check throws, the
  boolean is false.
\<close>

theorem verifySignature_never_throws:
  "(\<exists>v. verifySignature P k c s = Inr v)
   \<and> (isl (atob P s) \<longrightarrow> verifySignature P k c s = Inr False)
   \<and> (\<forall>sb. atob P s = Inr sb \<longrightarrow> isl (subtle_verify P k sb (text_encode P c))
          \<longrightarrow> verifySignature P k c s = Inr False)"
proof (cases "atob P s")
  case (Inl err)
  then have "verifySignature P k c s = Inr False"
    by (simp add: verifySignature_def verifySignature_try_def)
  with Inl show ?thesis by auto
next
  case (Inr sb)
  then have t: "verifySignature_try P k c s = subtle_verify P k sb (text_encode P c)"
    by (simp add: verifySignature_try_def)
  show ?thesis
  proof (cases "subtle_verify P k sb (text_encode P c)")
    case (Inl err)
    with t have "verifySignature P k c s = Inr False"
      by (simp add: verifySignature_def)
    with Inr show ?thesis by auto
  next
    case valid: (Inr v)
    with t have "verifySignature P k c s = Inr v"
      by (simp add: verifySignature_def)
    with Inr valid show ?thesis by auto
  qed
qed

theorem verifySignature_never_throws_witness:
  "isl (atob example_platform ''%%not-base64'')
   \<and> verifySignature example_platform (CryptoKey ''QUJD'') ''abc'' ''%%not-base64'' = Inr False"
proof -
  have h: "isl (atob example_platform ''%%not-base64'')" by code_simp
  from verifySignature_never_throws[of example_platform "CryptoKey ''QUJD''" "''abc''"
      "''%%not-base64''"] h
  show ?thesis by blast
qed

section \<open>The secret bundle\<close>

lemma extract_step_lookup:
  "map_of (extract_step e x acc) k =
     (case map_of e k of
        Some (EnvString v) \<Rightarrow>
          if k = x \<and> k \<notin> set excludeKeys then Some v else map_of acc k
      | _ \<Rightarrow> map_of acc k)"
  by (auto simp: extract_step_def update_conv' split: option.splits env_value.splits)

lemma fold_extract:
  "map_of (fold (extract_step e) ks acc) k =
     (case map_of e k of
        Some (EnvString v) \<Rightarrow>
          if k \<in> set ks \<and> k \<notin> set excludeKeys then Some v else map_of acc k
      | _ \<Rightarrow> map_of acc k)"
proof (induction ks arbitrary: acc)
  case Nil
  then show ?case by (simp split: option.splits env_value.splits)
next
  case (Cons x xs)
  have "map_of (fold (extract_step e) (x # xs) acc) k =
        map_of (fold (extract_step e) xs (extract_step e x acc)) k"
    by simp
  also have "\<dots> = (case map_of e k of
        Some (EnvString v) \<Rightarrow>
          if k \<in> set xs \<and> k \<notin> set excludeKeys then Some v
          else map_of (extract_step e x acc) k
      | _ \<Rightarrow> map_of (extract_step e x acc) k)"
    by (rule Cons.IH)
  also have "\<dots> = (case map_of e k of
        Some (EnvString v) \<Rightarrow>
          if k \<in> set (x # xs) \<and> k \<notin> set excludeKeys then Some v else map_of acc k
      | _ \<Rightarrow> map_of acc k)"
    unfolding extract_step_lookup by (auto split: option.splits env_value.splits)
  finally show ?case .
qed

lemma extractSecrets_lookup:
  "map_of (extractSecrets e) k =
     (case map_of e k of
        Some (EnvString v) \<Rightarrow> if k \<in> set excludeKeys then None else Some v
      | _ \<Rightarrow> None)"
proof -
  have "map_of e k \<noteq> None \<Longrightarrow> k \<in> set (Object_keys e)"
    by (auto simp: Object_keys_def dest: map_of_SomeD intro: rev_image_eqI)
  then show ?thesis
    by (auto simp: extractSecrets_def fold_extract split: option.splits env_value.splits)
qed

lemma verify_issue_reply:
  assumes "verify_issue P A e b cid w = (Inr r, lg, w1)"
  shows "\<exists>token accessToken repoList.
           r = jsonResponse (Verified token accessToken (extractSecrets e) repoList) 200
           \<and> generateJWT P cid (jwtSecret e) (jwt_iat_now A) (jwt_exp_now A) = Inr token"
  using assms
  by (auto simp: verify_issue_def Let_def split: sum.splits prod.splits)

lemma success_is_verify:
  assumes "req_method rq = ''POST''" and "path rq = ''/verify''"
    and "fetch P A e rq w = (r, lg, w1)" and "status r = 200"
  shows "\<exists>cid c s. is_verify_of rq cid c s"
proof -
  have t: "fetch_try P A e rq w = (Inr r, lg, w1)"
    using assms(3,4) assms(1) by (auto intro: fetch_success)
  then obtain b where b: "json_body rq = Some b"
    using assms(1,2) by (cases "json_body rq") (auto simp: fetch_try_def with_body_def)
  have "\<not> (falsy (q_clientId b) \<or> falsy (q_challenge b) \<or> falsy (q_signature b))"
    using t assms b
    by (auto simp: fetch_try_def with_body_def handle_verify_def errorResponse_def
        jsonResponse_def)
  then have "is_verify_of rq (the (q_clientId b)) (the (q_challenge b)) (the (q_signature b))"
    using assms(1,2) b
    by (cases "q_clientId b"; cases "q_challenge b"; cases "q_signature b")
       (auto simp: is_verify_of_def)
  then show ?thesis by blast
qed

text \<open>
  Claim C10. In the reply of a successful \<open>POST /verify\<close>, \<open>secretData\<close> has
  the value \<open>v\<close> under the name \<open>k\<close> exactly when the environment has the
  string \<open>v\<close> under \<open>k\<close> and \<open>k\<close> is neither \<open>AUTHORIZED_CLIENTS\<close> nor
  \<open>CHALLENGE_STORAGE\<close>. When \<open>SECRET_DATA\<close> is a string of the environment,
  it is in \<open>secretData\<close>, and the compact token of the reply is the one
  \<open>generateJWT\<close> makes for the identity of the request with that string as the
  key.
\<close>

theorem verify_returns_secrets:
  assumes "req_method rq = ''POST''" and "path rq = ''/verify''"
    and "fetch P A e rq w = (r, lg, w1)" and "status r = 200"
  shows "\<exists>token accessToken secretData repoList.
           body r = Verified token accessToken secretData repoList
           \<and> (\<forall>k v. (map_of secretData k = Some v) =
                 (map_of e k = Some (EnvString v)
                  \<and> k \<noteq> ''AUTHORIZED_CLIENTS'' \<and> k \<noteq> ''CHALLENGE_STORAGE''))
           \<and> (\<forall>sd. map_of e ''SECRET_DATA'' = Some (EnvString sd) \<longrightarrow>
                 map_of secretData ''SECRET_DATA'' = Some sd
                 \<and> (\<exists>b cid. json_body rq = Some b \<and> q_clientId b = Some cid
                      \<and> generateJWT P cid sd (jwt_iat_now A) (jwt_exp_now A) = Inr token))"
proof -
  obtain cid c s where v: "is_verify_of rq cid c s"
    using success_is_verify[OF assms] by blast
  obtain b where b: "json_body rq = Some b" "q_clientId b = Some cid"
    "fetch_try P A e rq w =
       verify_check P A e b cid (fst (get_challenge P cid w)) (snd (get_challenge P cid w))"
    using v by (rule fetch_verify)
  have "fetch_try P A e rq w = (Inr r, lg, w1)"
    using assms(3,4) not_options[OF v] by (rule fetch_success)
  with b(3) have "verify_check P A e b cid (fst (get_challenge P cid w))
      (snd (get_challenge P cid w)) = (Inr r, lg, w1)"
    by simp
  from verify_check_reply[OF this assms(4)]
  have "\<exists>w0 lg'. verify_issue P A e b cid w0 = (Inr r, lg', w1)"
    by blast
  then obtain token accessToken repoList where
    r: "r = jsonResponse (Verified token accessToken (extractSecrets e) repoList) 200"
    and j: "generateJWT P cid (jwtSecret e) (jwt_iat_now A) (jwt_exp_now A) = Inr token"
    using verify_issue_reply by blast
  have 1: "body r = Verified token accessToken (extractSecrets e) repoList"
    using r by (simp add: jsonResponse_def)
  have 2: "\<forall>k v. (map_of (extractSecrets e) k = Some v) =
                 (map_of e k = Some (EnvString v)
                  \<and> k \<noteq> ''AUTHORIZED_CLIENTS'' \<and> k \<noteq> ''CHALLENGE_STORAGE'')"
    by (auto simp: extractSecrets_lookup excludeKeys_def split: option.splits env_value.splits)
  have 3: "\<forall>sd. map_of e ''SECRET_DATA'' = Some (EnvString sd) \<longrightarrow>
                 map_of (extractSecrets e) ''SECRET_DATA'' = Some sd
                 \<and> (\<exists>b cid. json_body rq = Some b \<and> q_clientId b = Some cid
                      \<and> generateJWT P cid sd (jwt_iat_now A) (jwt_exp_now A) = Inr token)"
  proof (intro allI impI conjI)
    fix sd assume sd: "map_of e ''SECRET_DATA'' = Some (EnvString sd)"
    show "map_of (extractSecrets e) ''SECRET_DATA'' = Some sd"
      using sd by (simp add: extractSecrets_lookup excludeKeys_def)
    have "jwtSecret e = sd" using sd by (simp add: jwtSecret_def)
    with j b(1,2) show "\<exists>b cid. json_body rq = Some b \<and> q_clientId b = Some cid
                      \<and> generateJWT P cid sd (jwt_iat_now A) (jwt_exp_now A) = Inr token"
      by auto
  qed
  from 1 2 3 show ?thesis by blast
qed

theorem verify_returns_secrets_witness:
  "req_method (example_verify ''abc'' ''signed:abc'' (Some ''https://t1'')) = ''POST''
   \<and> path (example_verify ''abc'' ''signed:abc'' (Some ''https://t1'')) = ''/verify''
   \<and> status (fst example_verified) = 200
   \<and> map_of example_env ''SECRET_DATA'' = Some (EnvString ''s3cret'')
   \<and> (\<exists>token accessToken secretData repoList.
         body (fst example_verified) = Verified token accessToken secretData repoList
         \<and> map_of secretData ''SECRET_DATA'' = Some ''s3cret''
         \<and> map_of secretData ''AUTHORIZED_CLIENTS'' = None
         \<and> generateJWT example_platform ''c1'' ''s3cret'' 1000 1000 = Inr token)"
proof -
  let ?rq = "example_verify ''abc'' ''signed:abc'' (Some ''https://t1'')"
  have h1: "req_method ?rq = ''POST''" by code_simp
  have h2: "path ?rq = ''/verify''" by code_simp
  have h3: "fetch example_platform (example_ambient 1000) example_env ?rq example_world =
            (fst example_verified, fst (snd example_verified), snd (snd example_verified))"
    by (simp add: example_verified_def)
  have h4: "status (fst example_verified) = 200" by code_simp
  have sd: "map_of example_env ''SECRET_DATA'' = Some (EnvString ''s3cret'')" by code_simp
  have cid: "json_body ?rq = Some b \<Longrightarrow> q_clientId b = Some c \<Longrightarrow> c = ''c1''" for b c
    by (auto simp: example_verify_def)
  have t: "jwt_iat_now (example_ambient 1000) = 1000" "jwt_exp_now (example_ambient 1000) = 1000"
    by (simp_all add: example_ambient_def)
  from verify_returns_secrets[OF h1 h2 h3 h4]
  obtain token accessToken secretData repoList where
    1: "body (fst example_verified) = Verified token accessToken secretData repoList"
    and 2: "\<forall>k v. (map_of secretData k = Some v) =
                 (map_of example_env k = Some (EnvString v)
                  \<and> k \<noteq> ''AUTHORIZED_CLIENTS'' \<and> k \<noteq> ''CHALLENGE_STORAGE'')"
    and 3: "\<forall>sd. map_of example_env ''SECRET_DATA'' = Some (EnvString sd) \<longrightarrow>
                 map_of secretData ''SECRET_DATA'' = Some sd
                 \<and> (\<exists>b cid. json_body ?rq = Some b \<and> q_clientId b = Some cid
                      \<and> generateJWT example_platform cid sd (jwt_iat_now (example_ambient 1000))
                           (jwt_exp_now (example_ambient 1000)) = Inr token)"
    by (elim exE conjE)
  note 4 = 3[rule_format, OF sd]
  from 2 have "map_of secretData ''AUTHORIZED_CLIENTS'' \<noteq> Some v" for v
    by simp
  then have b: "map_of secretData ''AUTHORIZED_CLIENTS'' = None"
    by (cases "map_of secretData ''AUTHORIZED_CLIENTS''") auto
  from 4 obtain b' cid' where j: "json_body ?rq = Some b'" "q_clientId b' = Some cid'"
    "generateJWT example_platform cid' ''s3cret'' (jwt_iat_now (example_ambient 1000))
       (jwt_exp_now (example_ambient 1000)) = Inr token"
    by (elim exE conjE)
  from cid[OF j(1,2)] j(3) have c: "generateJWT example_platform ''c1'' ''s3cret'' 1000 1000 = Inr token"
    unfolding t by simp
  from 4 have a: "map_of secretData ''SECRET_DATA'' = Some ''s3cret''" by (rule conjunct1)
  from 1 a b c have "\<exists>token accessToken secretData repoList.
         body (fst example_verified) = Verified token accessToken secretData repoList
         \<and> map_of secretData ''SECRET_DATA'' = Some ''s3cret''
         \<and> map_of secretData ''AUTHORIZED_CLIENTS'' = None
         \<and> generateJWT example_platform ''c1'' ''s3cret'' 1000 1000 = Inr token"
    by (intro exI conjI)
  with h1 h2 h4 sd show ?thesis by (intro conjI)
qed

end
